theory Spec2Isabelle
  imports Complex_Main
begin

section \<open>Data model (types.ts)\<close>

text \<open>
  A JavaScript \<^verbatim>\<open>number\<close> is modelled as an exact rational: the model has no NaN, no
  infinities and no rounding. A \<^verbatim>\<open>string\<close> is a list of characters; a character
  outside ASCII is an opaque unit (several of them for one code point in UTF-8).
\<close>

type_synonym number = rat

record Part =
  itemNo :: string
  itemDescription :: string
  itemGroup :: string
  model :: string
  bhlHlnFlag :: string
  hsnTax :: string
  saleRate :: string
  mrp :: string

record QuotationPart = Part +
  quantity :: number

section \<open>Application state (App component)\<close>

datatype UploadStatus = idle | loading | success | error

text \<open>The canonical field names, \<^verbatim>\<open>keyof Part\<close>.\<close>

datatype PartKey =
  K_itemNo | K_itemDescription | K_itemGroup | K_model
  | K_bhlHlnFlag | K_hsnTax | K_saleRate | K_mrp

text \<open>
  Every \<^verbatim>\<open>Error\<close> the ingestion path creates, one constructor per message:
  \<^item> \<open>UnsupportedFormat\<close>: \<^verbatim>\<open>File format not supported. Please upload CSV, TSV, or Excel.\<close>
  \<^item> \<open>EmptyOrHeaderOnly\<close>: \<^verbatim>\<open>File is empty or contains only headers.\<close>
  \<^item> \<open>MissingColumns ks\<close>: \<^verbatim>\<open>Missing required columns: \<close> followed by \<open>ks\<close> joined with commas
  \<^item> \<open>ExcelParseFailed\<close>: \<^verbatim>\<open>Failed to parse Excel file.\<close>
  \<^item> \<open>FileReadFailed\<close>: \<^verbatim>\<open>Could not read the file.\<close>
  \<^item> \<open>CsvParsingError m\<close>: \<^verbatim>\<open>CSV parsing error: \<close> followed by the parser's first message
  \<^item> \<open>CsvParseFailed m\<close>: \<^verbatim>\<open>Failed to parse file: \<close> followed by the parser's message
  \<^item> \<open>SizeExceeded n limit\<close>: \<^verbatim>\<open>File contains n items, exceeding the limit of limit.\<close>
\<close>

datatype IngestError =
  UnsupportedFormat
  | EmptyOrHeaderOnly
  | MissingColumns "PartKey list"
  | ExcelParseFailed
  | FileReadFailed
  | CsvParsingError string
  | CsvParseFailed string
  | SizeExceeded nat nat

text \<open>The texts \<^verbatim>\<open>uploadMessage\<close> takes: empty, the progress text, the success text
  with its count, the warning text with the error's message.\<close>

datatype UploadMessage = NoMessage | ParsingYourFile | UploadedOk nat | Failed IngestError

text \<open>The \<^verbatim>\<open>useState\<close> cells of \<^verbatim>\<open>App\<close>. The search index \<^verbatim>\<open>fuseRef\<close> is passed
  to the search handler separately.\<close>

record AppState =
  parts :: "Part list"
  searchResults :: "Part list option"
  searchQuery :: string
  uploadStatus :: UploadStatus
  uploadMessage :: UploadMessage
  isUploadModalOpen :: bool
  quotationParts :: "QuotationPart list"
  isQuotationOpen :: bool
  discountPercentage :: number

definition initialState :: AppState where
  "initialState =
     \<lparr>parts = [], searchResults = None, searchQuery = [], uploadStatus = idle,
      uploadMessage = NoMessage, isUploadModalOpen = True, quotationParts = [],
      isQuotationOpen = False, discountPercentage = 0\<rparr>"

section \<open>Quotation ledger (App component)\<close>

text \<open>
  Each handler is a function from the state of the render that created it to the next
  state: the value a handler reads from its closure and the value its functional update
  receives are the same state.
\<close>

text \<open>The object \<^verbatim>\<open>{ ...partToAdd, quantity }\<close>.\<close>

definition withQuantity :: "Part \<Rightarrow> number \<Rightarrow> QuotationPart" where
  "withQuantity p q =
     \<lparr>itemNo = itemNo p, itemDescription = itemDescription p, itemGroup = itemGroup p,
      model = model p, bhlHlnFlag = bhlHlnFlag p, hsnTax = hsnTax p, saleRate = saleRate p,
      mrp = mrp p, quantity = q\<rparr>"


definition handleRemoveFromQuotation :: "string \<Rightarrow> AppState \<Rightarrow> AppState" where
  "handleRemoveFromQuotation itemNoToRemove s =
     s\<lparr>quotationParts := filter (\<lambda>p. itemNo p \<noteq> itemNoToRemove) (quotationParts s)\<rparr>"

definition handleUpdateQuotationQuantity :: "string \<Rightarrow> number \<Rightarrow> AppState \<Rightarrow> AppState" where
  "handleUpdateQuotationQuantity itemNoToUpdate newQuantity s =
     (let quantity' = max 0 newQuantity
      in if quantity' = 0 then handleRemoveFromQuotation itemNoToUpdate s
         else s\<lparr>quotationParts :=
                  map (\<lambda>p. if itemNo p = itemNoToUpdate then p\<lparr>quantity := quantity'\<rparr> else p)
                    (quotationParts s)\<rparr>)"

definition handleClearQuotation :: "AppState \<Rightarrow> AppState" where
  "handleClearQuotation s = s\<lparr>quotationParts := [], discountPercentage := 0\<rparr>"

definition isPartInQuotation :: "string \<Rightarrow> AppState \<Rightarrow> bool" where
  "isPartInQuotation i s = list_ex (\<lambda>p. itemNo p = i) (quotationParts s)"

section \<open>Strings\<close>

text \<open>
  \<^verbatim>\<open>toLowerCase\<close> on the ASCII letters and \<^verbatim>\<open>trim\<close> on the ASCII white space
  (tab, line feed, vertical tab, form feed, carriage return, space). Case mapping and
  white space beyond ASCII are not modelled: such characters are left as they are.
\<close>

definition toLowerChar :: "char \<Rightarrow> char" where
  "toLowerChar c =
     (case map_of (zip ''ABCDEFGHIJKLMNOPQRSTUVWXYZ'' ''abcdefghijklmnopqrstuvwxyz'') c of
        Some l \<Rightarrow> l
      | None \<Rightarrow> c)"

definition toLowerCase :: "string \<Rightarrow> string" where
  "toLowerCase s = map toLowerChar s"

definition isWhiteSpace :: "char \<Rightarrow> bool" where
  "isWhiteSpace c \<longleftrightarrow> c \<in> set [CHR 0x09, CHR 0x0A, CHR 0x0B, CHR 0x0C, CHR 0x0D, CHR 0x20]"

definition trim :: "string \<Rightarrow> string" where
  "trim s = rev (dropWhile isWhiteSpace (rev (dropWhile isWhiteSpace s)))"

section \<open>Search (App component)\<close>

text \<open>
  The Fuse library is not part of the repository. An index built by
  \<^verbatim>\<open>new Fuse(parts, options)\<close> is modelled by its \<^verbatim>\<open>search\<close> method, a function
  from the pattern to the result objects in the engine's order.
\<close>

record FuseResult =
  item :: Part
  refIndex :: nat
  score :: number




definition handleClear :: "AppState \<Rightarrow> AppState" where
  "handleClear s = s\<lparr>searchQuery := [], searchResults := None\<rparr>"

section \<open>File parser (services/fileParser)\<close>

definition REQUIRED_HEADERS :: "PartKey list" where
  "REQUIRED_HEADERS =
     [K_itemNo, K_itemDescription, K_itemGroup, K_model, K_bhlHlnFlag, K_hsnTax, K_saleRate, K_mrp]"

text \<open>
  The table's own eleven keys; a header that is not one of them has no field. The
  properties every JavaScript object inherits (a header spelled \<^verbatim>\<open>constructor\<close>) are
  not modelled: they name no field of \<^verbatim>\<open>Part\<close>.
\<close>

definition HEADER_MAPPING :: "string \<Rightarrow> PartKey option" where
  "HEADER_MAPPING =
     map_of
       [(''item no'', K_itemNo),
        (''item no.'', K_itemNo),
        (''item description'', K_itemDescription),
        (''description'', K_itemDescription),
        (''item group'', K_itemGroup),
        (''model'', K_model),
        (''bhl/hln flag'', K_bhlHlnFlag),
        (''hsn tax %'', K_hsnTax),
        (''hsn tax'', K_hsnTax),
        (''sale rate'', K_saleRate),
        (''mrp'', K_mrp)]"

definition normalizeHeader :: "string \<Rightarrow> string" where
  "normalizeHeader header = trim (toLowerCase header)"

text \<open>
  A cell as the sheet reader delivers it: \<^verbatim>\<open>undefined\<close>, \<^verbatim>\<open>null\<close> or a value of the
  reader's cell type \<open>'v\<close>. \<^verbatim>\<open>String(v)\<close> on such a value is the parameter \<open>str\<close>.
\<close>

datatype 'v jsval = Undefined | Null | Val 'v

definition String_js :: "('v \<Rightarrow> string) \<Rightarrow> 'v jsval \<Rightarrow> string" where
  "String_js str v = (case v of Undefined \<Rightarrow> ''undefined'' | Null \<Rightarrow> ''null'' | Val x \<Rightarrow> str x)"

text \<open>\<^verbatim>\<open>row[index]\<close>: reading past the end of an array gives \<^verbatim>\<open>undefined\<close>.\<close>

definition cellAt :: "'v jsval list \<Rightarrow> nat \<Rightarrow> 'v jsval" where
  "cellAt row index = (if index < length row then row ! index else Undefined)"

text \<open>\<^verbatim>\<open>String(value ?? '')\<close>.\<close>

definition textOrEmpty :: "('v \<Rightarrow> string) \<Rightarrow> 'v jsval \<Rightarrow> string" where
  "textOrEmpty str v = (case v of Undefined \<Rightarrow> [] | Null \<Rightarrow> [] | Val x \<Rightarrow> str x)"

text \<open>The object \<^verbatim>\<open>part: any = {}\<close> while it is filled: a property is absent or a text.\<close>

type_synonym PartObj = "PartKey \<rightharpoonup> string"

text \<open>
  The cast \<^verbatim>\<open>part as Part\<close>: it checks nothing; each field reads the property. Both
  readers build records only after the check that every required field has a column, so
  every property read here has been set.
\<close>

definition asPart :: "PartObj \<Rightarrow> Part" where
  "asPart part =
     \<lparr>itemNo = the (part K_itemNo), itemDescription = the (part K_itemDescription),
      itemGroup = the (part K_itemGroup), model = the (part K_model),
      bhlHlnFlag = the (part K_bhlHlnFlag), hsnTax = the (part K_hsnTax),
      saleRate = the (part K_saleRate), mrp = the (part K_mrp)\<rparr>"


text \<open>The \<^verbatim>\<open>forEach\<close> of \<^verbatim>\<open>processRow\<close>, from column \<open>index\<close> on.\<close>

fun processColumns ::
  "('v \<Rightarrow> string) \<Rightarrow> 'v jsval list \<Rightarrow> PartKey option list \<Rightarrow> nat \<Rightarrow> PartObj \<Rightarrow> PartObj" where
  "processColumns str row [] index part = part"
| "processColumns str row (partKey # rest) index part =
     processColumns str row rest (Suc index)
       (case partKey of
          Some k \<Rightarrow> part(k \<mapsto> textOrEmpty str (cellAt row index))
        | None \<Rightarrow> part)"

definition processRow :: "('v \<Rightarrow> string) \<Rightarrow> 'v jsval list \<Rightarrow> PartKey option list \<Rightarrow> Part" where
  "processRow str row headerMap = asPart (processColumns str row headerMap 0 Map.empty)"

text \<open>\<^verbatim>\<open>foundHeaders\<close> and \<^verbatim>\<open>missingHeaders\<close>, computed the same way by both readers.\<close>

definition foundHeaders :: "PartKey option list \<Rightarrow> PartKey list" where
  "foundHeaders headerMap = map the (filter (\<lambda>h. h \<noteq> None) headerMap)"

definition missingHeaders :: "PartKey option list \<Rightarrow> PartKey list" where
  "missingHeaders headerMap =
     filter (\<lambda>rh. rh \<notin> set (foundHeaders headerMap)) REQUIRED_HEADERS"

text \<open>
  What the spreadsheet library makes of the file: the \<^verbatim>\<open>FileReader\<close> fails, the library
  throws, or \<^verbatim>\<open>sheet_to_json\<close> with \<^verbatim>\<open>header: 1\<close> gives the first sheet's rows as
  arrays of cells.
\<close>

datatype 'v SheetOutcome = ReaderError | XlsxThrows | SheetRows "'v jsval list list"

definition parseExcel :: "('v \<Rightarrow> string) \<Rightarrow> 'v SheetOutcome \<Rightarrow> IngestError + Part list" where
  "parseExcel str outcome =
     (case outcome of
        ReaderError \<Rightarrow> Inl FileReadFailed
      | XlsxThrows \<Rightarrow> Inl ExcelParseFailed
      | SheetRows json \<Rightarrow>
          if length json < 2 then Inl EmptyOrHeaderOnly
          else
            (let headers = map (\<lambda>h. normalizeHeader (String_js str h)) (json ! 0);
                 headerMap = map (\<lambda>h. HEADER_MAPPING h) headers;
                 missing = missingHeaders headerMap
             in if length missing > 0 then Inl (MissingColumns missing)
                else Inr (map (\<lambda>row. processRow str row headerMap) (drop 1 json))))"

text \<open>
  What the delimited-text library reports: its \<^verbatim>\<open>error\<close> callback with a message, or
  its \<^verbatim>\<open>complete\<close> callback with the messages of \<^verbatim>\<open>results.errors\<close>, the header
  names \<^verbatim>\<open>results.meta.fields\<close> and the row objects \<^verbatim>\<open>results.data\<close>, each a
  dictionary from header name to cell text. The header names are taken to be present
  (an array, possibly empty).
\<close>

record PapaResults =
  errors :: "string list"
  meta_fields :: "string list"
  data :: "(string \<rightharpoonup> string) list"

datatype PapaOutcome = PapaError string | PapaComplete PapaResults

text \<open>The loop over \<^verbatim>\<open>headers\<close> that fills one record from a row object.\<close>

fun csvColumns :: "(string \<rightharpoonup> string) \<Rightarrow> string list \<Rightarrow> PartObj \<Rightarrow> PartObj" where
  "csvColumns row [] part = part"
| "csvColumns row (rawHeader # rest) part =
     csvColumns row rest
       (case HEADER_MAPPING rawHeader of
          Some partKey \<Rightarrow> part(partKey \<mapsto> (case row rawHeader of None \<Rightarrow> [] | Some v \<Rightarrow> v))
        | None \<Rightarrow> part)"

definition parseCsvTsv :: "PapaOutcome \<Rightarrow> IngestError + Part list" where
  "parseCsvTsv outcome =
     (case outcome of
        PapaError m \<Rightarrow> Inl (CsvParseFailed m)
      | PapaComplete results \<Rightarrow>
          (case errors results of
             e # _ \<Rightarrow> Inl (CsvParsingError e)
           | [] \<Rightarrow>
               (let headers = map normalizeHeader (meta_fields results);
                    headerMapValues = map (\<lambda>h. HEADER_MAPPING h) headers;
                    missing = missingHeaders headerMapValues
                in if length missing > 0 then Inl (MissingColumns missing)
                   else Inr (map (\<lambda>row. asPart (csvColumns row headers Map.empty))
                               (data results)))))"

text \<open>
  A selected file: its name, and its content as each of the two libraries reads it.
\<close>

record 'v File =
  name :: string
  sheet :: "'v SheetOutcome"
  papa :: PapaOutcome

text \<open>\<^verbatim>\<open>file.name.split('.').pop()?.toLowerCase()\<close>: the text after the last dot, or the
  whole name when it has no dot.\<close>

definition extension :: "string \<Rightarrow> string" where
  "extension fileName = toLowerCase (rev (takeWhile (\<lambda>c. c \<noteq> CHR ''.'') (rev fileName)))"

definition parsePartsFile :: "('v \<Rightarrow> string) \<Rightarrow> 'v File \<Rightarrow> IngestError + Part list" where
  "parsePartsFile str file =
     (if extension (name file) = ''xlsx'' then parseExcel str (sheet file)
      else if extension (name file) = ''csv'' \<or> extension (name file) = ''tsv''
        then parseCsvTsv (papa file)
      else Inl UnsupportedFormat)"

section \<open>Upload handler (App component)\<close>

definition MAX_PARTS_LIMIT :: nat where
  "MAX_PARTS_LIMIT = 65000"

text \<open>
  The handler from the file selection to the end of its \<^verbatim>\<open>try\<close>/\<^verbatim>\<open>catch\<close>, as one
  step: no other event is interleaved while the parse is awaited, and the timer that
  closes the dialog two seconds after a success is left out.
\<close>

definition handleFileChange :: "('v \<Rightarrow> string) \<Rightarrow> 'v File option \<Rightarrow> AppState \<Rightarrow> AppState" where
  "handleFileChange str selected s =
     (case selected of
        None \<Rightarrow> s
      | Some file \<Rightarrow>
          (let s1 = s\<lparr>uploadStatus := loading, uploadMessage := ParsingYourFile,
                      searchResults := None, searchQuery := []\<rparr>;
               tried =
                 (case parsePartsFile str file of
                    Inl e \<Rightarrow> Inl e
                  | Inr parsedData \<Rightarrow>
                      if length parsedData > MAX_PARTS_LIMIT
                      then Inl (SizeExceeded (length parsedData) MAX_PARTS_LIMIT)
                      else Inr parsedData)
           in case tried of
                Inr parsedData \<Rightarrow>
                  s1\<lparr>parts := parsedData, quotationParts := [], discountPercentage := 0,
                     uploadStatus := success, uploadMessage := UploadedOk (length parsedData)\<rparr>
              | Inl e \<Rightarrow>
                  s1\<lparr>uploadStatus := error, uploadMessage := Failed e, parts := [],
                     quotationParts := [], discountPercentage := 0\<rparr>))"

section \<open>Quotation totals and discount input (QuotationSidebar component)\<close>













section \<open>Functions used to state the parser's properties\<close>





section \<open>Example data\<close>

definition examplePart :: Part where
  "examplePart =
     \<lparr>itemNo = ''AB-123'', itemDescription = ''Filter oil'', itemGroup = ''Filters'',
      model = ''3DX'', bhlHlnFlag = ''BHL'', hsnTax = ''18'', saleRate = ''90'', mrp = ''100.00''\<rparr>"

definition otherPart :: Part where
  "otherPart =
     \<lparr>itemNo = ''ab-123'', itemDescription = ''Filter fuel'', itemGroup = ''Filters'',
      model = ''3DX'', bhlHlnFlag = ''HLN'', hsnTax = ''18'', saleRate = ''40'', mrp = ''50''\<rparr>"

definition exampleLedger :: AppState where
  "exampleLedger =
     initialState\<lparr>quotationParts := [withQuantity examplePart 1, withQuantity otherPart 2]\<rparr>"

text \<open>A spreadsheet with the eight columns in the table's first spellings.\<close>

definition exampleHeaderRow :: "string jsval list" where
  "exampleHeaderRow =
     [Val ''Item No.'', Val ''Description'', Val ''Item Group'', Val ''Model'',
      Val ''BHL/HLN Flag'', Val ''HSN Tax %'', Val ''Sale Rate'', Val ''MRP'']"

definition exampleDataRow :: "string jsval list" where
  "exampleDataRow =
     [Val ''AB-123'', Val ''Filter oil'', Val ''Filters'', Val ''3DX'',
      Val ''BHL'', Val ''18'', Val ''90'', Val ''100.00'']"

definition sheetFile :: "string jsval list list \<Rightarrow> string File" where
  "sheetFile rows = \<lparr>name = ''parts.xlsx'', sheet = SheetRows rows, papa = PapaError []\<rparr>"

definition pdfFile :: "string File" where
  "pdfFile = \<lparr>name = ''parts.pdf'', sheet = XlsxThrows, papa = PapaError []\<rparr>"


















section \<open>Quotation ledger: properties\<close>

lemma not_in_after_filter:
  "\<not> list_ex (\<lambda>p. itemNo p = i) (filter (\<lambda>p. itemNo p \<noteq> i) xs)"
  by (simp add: list_ex_iff)

lemma setq_map_itemNo:
  "map itemNo (map (\<lambda>p. if itemNo p = i then p\<lparr>quantity := n\<rparr> else p) xs) = map itemNo xs"
  by (induction xs) simp_all

lemma setq_filter_others:
  "filter (\<lambda>l. itemNo l \<noteq> i) (map (\<lambda>p. if itemNo p = i then p\<lparr>quantity := n\<rparr> else p) xs)
   = filter (\<lambda>l. itemNo l \<noteq> i) xs"
  by (induction xs) simp_all

lemma setq_all:
  assumes "l \<in> set (map (\<lambda>p. if itemNo p = i then p\<lparr>quantity := n\<rparr> else p) xs)"
    and "itemNo l = i"
  shows "quantity l = n"
proof -
  from assms(1) obtain p where p: "l = (if itemNo p = i then p\<lparr>quantity := n\<rparr> else p)"
    unfolding set_map image_iff by blast
  show ?thesis
  proof (cases "itemNo p = i")
    case True
    with p show ?thesis by simp
  next
    case False
    with p have "l = p" by simp
    with False assms(2) show ?thesis by simp
  qed
qed

lemma setq_ex:
  "l0 \<in> set xs \<Longrightarrow> itemNo l0 = i
   \<Longrightarrow> \<exists>l \<in> set (map (\<lambda>p. if itemNo p = i then p\<lparr>quantity := n\<rparr> else p) xs).
         itemNo l = i \<and> quantity l = n"
  by (induction xs) auto



text \<open>
  Claim C8. On a ledger that has a line with the given item number, the new quantity is
  clamped to at least 0. For every \<open>n \<le> 0\<close> the update is the removal of that item
  number, and no line with it is left. For every \<open>n > 0\<close> only the quantities of the
  lines with that item number change, to \<open>n\<close>: the item numbers and their order stay,
  and the other lines stay as they are.
\<close>

theorem setQuantity_clamps:
  assumes "isPartInQuotation i s"
  shows "(n \<le> 0 \<longrightarrow>
            handleUpdateQuotationQuantity i n s = handleRemoveFromQuotation i s
            \<and> \<not> isPartInQuotation i (handleUpdateQuotationQuantity i n s))
         \<and> (0 < n \<longrightarrow>
              handleUpdateQuotationQuantity i n s =
                s\<lparr>quotationParts :=
                    map (\<lambda>p. if itemNo p = i then p\<lparr>quantity := n\<rparr> else p) (quotationParts s)\<rparr>
              \<and> (\<exists>l \<in> set (quotationParts (handleUpdateQuotationQuantity i n s)).
                    itemNo l = i \<and> quantity l = n)
              \<and> (\<forall>l \<in> set (quotationParts (handleUpdateQuotationQuantity i n s)).
                    itemNo l = i \<longrightarrow> quantity l = n)
              \<and> map itemNo (quotationParts (handleUpdateQuotationQuantity i n s))
                  = map itemNo (quotationParts s)
              \<and> filter (\<lambda>l. itemNo l \<noteq> i) (quotationParts (handleUpdateQuotationQuantity i n s))
                  = filter (\<lambda>l. itemNo l \<noteq> i) (quotationParts s))"
proof (intro conjI impI)
  assume "n \<le> 0"
  then have z: "max 0 n = 0" by simp
  show r: "handleUpdateQuotationQuantity i n s = handleRemoveFromQuotation i s"
    by (simp add: handleUpdateQuotationQuantity_def z)
  show "\<not> isPartInQuotation i (handleUpdateQuotationQuantity i n s)"
    unfolding r by (simp add: isPartInQuotation_def handleRemoveFromQuotation_def not_in_after_filter)
next
  assume pos: "0 < n"
  then have m: "max 0 n = n" "n \<noteq> 0" by simp_all
  show eq: "handleUpdateQuotationQuantity i n s =
          s\<lparr>quotationParts :=
              map (\<lambda>p. if itemNo p = i then p\<lparr>quantity := n\<rparr> else p) (quotationParts s)\<rparr>"
    by (simp add: handleUpdateQuotationQuantity_def Let_def m)
  have qp: "quotationParts (handleUpdateQuotationQuantity i n s)
              = map (\<lambda>p. if itemNo p = i then p\<lparr>quantity := n\<rparr> else p) (quotationParts s)"
    by (simp add: eq)
  from assms obtain l0 where l0: "l0 \<in> set (quotationParts s)" "itemNo l0 = i"
    unfolding isPartInQuotation_def list_ex_iff by blast
  show "\<exists>l \<in> set (quotationParts (handleUpdateQuotationQuantity i n s)). itemNo l = i \<and> quantity l = n"
    unfolding qp by (rule setq_ex [OF l0])
  show "\<forall>l \<in> set (quotationParts (handleUpdateQuotationQuantity i n s)). itemNo l = i \<longrightarrow> quantity l = n"
    unfolding qp by (blast intro: setq_all)
  show "map itemNo (quotationParts (handleUpdateQuotationQuantity i n s)) = map itemNo (quotationParts s)"
    unfolding qp by (rule setq_map_itemNo)
  show "filter (\<lambda>l. itemNo l \<noteq> i) (quotationParts (handleUpdateQuotationQuantity i n s))
          = filter (\<lambda>l. itemNo l \<noteq> i) (quotationParts s)"
    unfolding qp by (rule setq_filter_others)
qed

theorem setQuantity_clamps_witness:
  "isPartInQuotation ''AB-123'' exampleLedger
   \<and> (-5::rat) \<le> 0
   \<and> handleUpdateQuotationQuantity ''AB-123'' (-5) exampleLedger
       = handleRemoveFromQuotation ''AB-123'' exampleLedger
   \<and> quotationParts (handleUpdateQuotationQuantity ''AB-123'' (-5) exampleLedger)
       = [withQuantity otherPart 2]
   \<and> (0::rat) < 4
   \<and> quotationParts (handleUpdateQuotationQuantity ''AB-123'' 4 exampleLedger)
       = [withQuantity examplePart 4, withQuantity otherPart 2]"
proof -
  have p: "isPartInQuotation ''AB-123'' exampleLedger"
    by (simp add: isPartInQuotation_def exampleLedger_def withQuantity_def examplePart_def)
  have a: "quotationParts (handleRemoveFromQuotation ''AB-123'' exampleLedger) = [withQuantity otherPart 2]"
    by (simp add: handleRemoveFromQuotation_def exampleLedger_def withQuantity_def examplePart_def
        otherPart_def)
  have b: "map (\<lambda>p. if itemNo p = ''AB-123'' then p\<lparr>quantity := 4\<rparr> else p) (quotationParts exampleLedger)
           = [withQuantity examplePart 4, withQuantity otherPart 2]"
    by (simp add: exampleLedger_def withQuantity_def examplePart_def otherPart_def)
  from setQuantity_clamps [OF p, of "-5"] setQuantity_clamps [OF p, of 4] p a b
  show ?thesis by simp
qed

text \<open>
  Claim C10. Setting a quantity \<open>n \<ge> 1\<close> for an item number that the ledger does not
  have leaves the whole state as it is: no line is added, no line is changed, and the
  discount is kept.
\<close>

theorem setQuantity_absent_unchanged:
  assumes "\<not> isPartInQuotation i s" and "1 \<le> n"
  shows "handleUpdateQuotationQuantity i n s = s"
proof -
  from assms(2) have m: "max 0 n = n" "max 0 n \<noteq> 0" by simp_all
  have "map (\<lambda>p. if itemNo p = i then p\<lparr>quantity := n\<rparr> else p) (quotationParts s) = quotationParts s"
    using assms(1) by (intro map_idI) (auto simp: isPartInQuotation_def list_ex_iff)
  then show ?thesis
    using m by (simp add: handleUpdateQuotationQuantity_def Let_def)
qed

theorem setQuantity_absent_unchanged_witness:
  "\<not> isPartInQuotation ''ZZ-9'' exampleLedger \<and> (1::rat) \<le> 3
   \<and> handleUpdateQuotationQuantity ''ZZ-9'' 3 exampleLedger = exampleLedger"
proof -
  have a: "\<not> isPartInQuotation ''ZZ-9'' exampleLedger"
    by (simp add: isPartInQuotation_def exampleLedger_def withQuantity_def examplePart_def
        otherPart_def)
  have b: "(1::rat) \<le> 3" by simp
  from setQuantity_absent_unchanged [OF a b] a show ?thesis by simp
qed

section \<open>Upload handler: properties\<close>




lemma exampleHeaderMap:
  "map (HEADER_MAPPING \<circ> (\<lambda>h. normalizeHeader (String_js (\<lambda>x. x) h))) exampleHeaderRow
   = map Some REQUIRED_HEADERS"
  by (simp add: exampleHeaderRow_def REQUIRED_HEADERS_def HEADER_MAPPING_def normalizeHeader_def
      String_js_def trim_def toLowerCase_def toLowerChar_def isWhiteSpace_def)

lemma missing_none: "missingHeaders (map Some REQUIRED_HEADERS) = []"
  by (simp add: missingHeaders_def foundHeaders_def REQUIRED_HEADERS_def)

lemma exampleRow_record:
  "processRow (\<lambda>x. x) exampleDataRow (map Some REQUIRED_HEADERS) = examplePart"
  by (simp add: processRow_def REQUIRED_HEADERS_def exampleDataRow_def cellAt_def textOrEmpty_def
      asPart_def examplePart_def)

lemma parse_sheetFile:
  "parsePartsFile (\<lambda>x. x) (sheetFile (exampleHeaderRow # replicate (Suc n) exampleDataRow))
   = Inr (replicate (Suc n) examplePart)"
proof -
  have ext: "extension ''parts.xlsx'' = ''xlsx''"
    by (simp add: extension_def toLowerCase_def toLowerChar_def)
  show ?thesis
    by (simp add: parsePartsFile_def sheetFile_def ext parseExcel_def exampleHeaderMap
        missing_none exampleRow_record Let_def del: replicate.simps)
qed

lemma handleFileChange_failed:
  assumes "parsePartsFile str file = Inl e"
  shows "handleFileChange str (Some file) s =
           s\<lparr>uploadStatus := error, uploadMessage := Failed e, searchResults := None,
             searchQuery := [], parts := [], quotationParts := [], discountPercentage := 0\<rparr>"
  by (simp add: handleFileChange_def assms)

lemma handleFileChange_too_big:
  assumes "parsePartsFile str file = Inr ps" and "MAX_PARTS_LIMIT < length ps"
  shows "handleFileChange str (Some file) s =
           s\<lparr>uploadStatus := error,
             uploadMessage := Failed (SizeExceeded (length ps) MAX_PARTS_LIMIT),
             searchResults := None, searchQuery := [], parts := [], quotationParts := [],
             discountPercentage := 0\<rparr>"
  by (simp add: handleFileChange_def assms)

lemma handleFileChange_loaded:
  assumes "parsePartsFile str file = Inr ps" and "\<not> MAX_PARTS_LIMIT < length ps"
  shows "handleFileChange str (Some file) s =
           s\<lparr>uploadStatus := success, uploadMessage := UploadedOk (length ps),
             searchResults := None, searchQuery := [], parts := ps, quotationParts := [],
             discountPercentage := 0\<rparr>"
  by (simp add: handleFileChange_def assms)

lemma parseExcel_not_size: "parseExcel str out \<noteq> Inl (SizeExceeded n l)"
  by (simp add: parseExcel_def Let_def split: SheetOutcome.splits)

lemma parseCsvTsv_not_size: "parseCsvTsv out \<noteq> Inl (SizeExceeded n l)"
  by (simp add: parseCsvTsv_def Let_def split: PapaOutcome.splits list.splits)

lemma parsePartsFile_not_size: "parsePartsFile str file \<noteq> Inl (SizeExceeded n l)"
  by (simp add: parsePartsFile_def parseExcel_not_size parseCsvTsv_not_size)

text \<open>
  Claim C4. The size check runs on the records of a successful parse. A file that parses
  to exactly 65001 records ends in the error state with the size message for 65001 against
  the limit 65000, and the catalog is empty; a file that parses to exactly 65000 records
  ends in the success state with those records as the catalog. After a successful parse
  the upload fails exactly when there are more than 65000 records. When the parse itself
  fails, the message is the parser's error, which is never the size error.
\<close>

theorem size_limit_after_parse:
  "(parsePartsFile str file = Inr ps \<and> length ps = 65001 \<longrightarrow>
      uploadStatus (handleFileChange str (Some file) s) = error
      \<and> uploadMessage (handleFileChange str (Some file) s) = Failed (SizeExceeded 65001 65000)
      \<and> parts (handleFileChange str (Some file) s) = [])
   \<and> (parsePartsFile str file = Inr ps \<and> length ps = 65000 \<longrightarrow>
        uploadStatus (handleFileChange str (Some file) s) = success
        \<and> uploadMessage (handleFileChange str (Some file) s) = UploadedOk 65000
        \<and> parts (handleFileChange str (Some file) s) = ps)
   \<and> (parsePartsFile str file = Inr ps \<longrightarrow>
        (uploadStatus (handleFileChange str (Some file) s) = error \<longleftrightarrow> 65000 < length ps))
   \<and> (parsePartsFile str file = Inl e \<longrightarrow>
        uploadMessage (handleFileChange str (Some file) s) = Failed e
        \<and> e \<noteq> SizeExceeded n l)"
proof (intro conjI impI)
  assume h: "parsePartsFile str file = Inr ps \<and> length ps = 65001"
  then have big: "MAX_PARTS_LIMIT < length ps" by (simp add: MAX_PARTS_LIMIT_def)
  from h have eq: "handleFileChange str (Some file) s =
           s\<lparr>uploadStatus := error,
             uploadMessage := Failed (SizeExceeded (length ps) MAX_PARTS_LIMIT),
             searchResults := None, searchQuery := [], parts := [], quotationParts := [],
             discountPercentage := 0\<rparr>"
    using handleFileChange_too_big [OF _ big] by blast
  show "uploadStatus (handleFileChange str (Some file) s) = error" by (simp add: eq)
  show "uploadMessage (handleFileChange str (Some file) s) = Failed (SizeExceeded 65001 65000)"
    using h by (simp add: eq MAX_PARTS_LIMIT_def)
  show "parts (handleFileChange str (Some file) s) = []" by (simp add: eq)
next
  assume h: "parsePartsFile str file = Inr ps \<and> length ps = 65000"
  then have fits: "\<not> MAX_PARTS_LIMIT < length ps" by (simp add: MAX_PARTS_LIMIT_def)
  from h have eq: "handleFileChange str (Some file) s =
           s\<lparr>uploadStatus := success, uploadMessage := UploadedOk (length ps),
             searchResults := None, searchQuery := [], parts := ps, quotationParts := [],
             discountPercentage := 0\<rparr>"
    using handleFileChange_loaded [OF _ fits] by blast
  show "uploadStatus (handleFileChange str (Some file) s) = success" by (simp add: eq)
  show "uploadMessage (handleFileChange str (Some file) s) = UploadedOk 65000"
    using h by (simp add: eq)
  show "parts (handleFileChange str (Some file) s) = ps" by (simp add: eq)
next
  assume h: "parsePartsFile str file = Inr ps"
  show "uploadStatus (handleFileChange str (Some file) s) = error \<longleftrightarrow> 65000 < length ps"
  proof (cases "MAX_PARTS_LIMIT < length ps")
    case True
    then show ?thesis
      by (simp add: handleFileChange_too_big [OF h True]) (simp add: MAX_PARTS_LIMIT_def)
  next
    case False
    then show ?thesis
      by (simp add: handleFileChange_loaded [OF h False]) (simp add: MAX_PARTS_LIMIT_def)
  qed
next
  assume h: "parsePartsFile str file = Inl e"
  show "uploadMessage (handleFileChange str (Some file) s) = Failed e"
    by (simp add: handleFileChange_failed [OF h])
  show "e \<noteq> SizeExceeded n l"
    using h parsePartsFile_not_size [of str "file" n l] by simp
qed

theorem size_limit_after_parse_witness:
  "parsePartsFile (\<lambda>x. x) (sheetFile (exampleHeaderRow # replicate 65001 exampleDataRow))
     = Inr (replicate 65001 examplePart)
   \<and> length (replicate 65001 examplePart) = 65001
   \<and> uploadMessage
       (handleFileChange (\<lambda>x. x)
          (Some (sheetFile (exampleHeaderRow # replicate 65001 exampleDataRow))) exampleLedger)
     = Failed (SizeExceeded 65001 65000)
   \<and> parts
       (handleFileChange (\<lambda>x. x)
          (Some (sheetFile (exampleHeaderRow # replicate 65001 exampleDataRow))) exampleLedger)
     = []
   \<and> parsePartsFile (\<lambda>x. x) (sheetFile (exampleHeaderRow # replicate 65000 exampleDataRow))
     = Inr (replicate 65000 examplePart)
   \<and> length (replicate 65000 examplePart) = 65000
   \<and> parts
       (handleFileChange (\<lambda>x. x)
          (Some (sheetFile (exampleHeaderRow # replicate 65000 exampleDataRow))) exampleLedger)
     = replicate 65000 examplePart
   \<and> parsePartsFile (\<lambda>x. x) pdfFile = Inl UnsupportedFormat
   \<and> uploadMessage (handleFileChange (\<lambda>x. x) (Some pdfFile) exampleLedger)
     = Failed UnsupportedFormat"
proof -
  have a: "parsePartsFile (\<lambda>x. x) (sheetFile (exampleHeaderRow # replicate 65001 exampleDataRow))
             = Inr (replicate 65001 examplePart)"
    using parse_sheetFile [of 65000] by (simp del: replicate.simps)
  have b: "parsePartsFile (\<lambda>x. x) (sheetFile (exampleHeaderRow # replicate 65000 exampleDataRow))
             = Inr (replicate 65000 examplePart)"
    using parse_sheetFile [of 64999] by (simp del: replicate.simps)
  have c: "parsePartsFile (\<lambda>x. x) pdfFile = Inl UnsupportedFormat"
    by (simp add: parsePartsFile_def pdfFile_def extension_def toLowerCase_def toLowerChar_def)
  have la: "length (replicate 65001 examplePart) = 65001"
    and lb: "length (replicate 65000 examplePart) = 65000"
    by simp_all
  from size_limit_after_parse
         [of "\<lambda>x. x" "sheetFile (exampleHeaderRow # replicate 65001 exampleDataRow)"
             "replicate 65001 examplePart" exampleLedger]
       size_limit_after_parse
         [of "\<lambda>x. x" "sheetFile (exampleHeaderRow # replicate 65000 exampleDataRow)"
             "replicate 65000 examplePart" exampleLedger]
       size_limit_after_parse [of "\<lambda>x. x" pdfFile _ exampleLedger UnsupportedFormat]
       a b c la lb
  show ?thesis by blast
qed

text \<open>
  Claim C6. After the handler has run on a selected file the quotation is empty and the
  discount is 0, whether the upload ended in success or in error; the upload ends in one
  of the two. Whenever it ends in error the catalog is empty as well: this is so for
  every error of the parser and for the size error.
\<close>

theorem upload_resets_ledger:
  "quotationParts (handleFileChange str (Some file) s) = []
   \<and> discountPercentage (handleFileChange str (Some file) s) = 0
   \<and> (uploadStatus (handleFileChange str (Some file) s) = success
        \<or> uploadStatus (handleFileChange str (Some file) s) = error)
   \<and> (uploadStatus (handleFileChange str (Some file) s) = error \<longrightarrow>
        parts (handleFileChange str (Some file) s) = [])
   \<and> (parsePartsFile str file = Inl e \<longrightarrow>
        uploadStatus (handleFileChange str (Some file) s) = error
        \<and> uploadMessage (handleFileChange str (Some file) s) = Failed e)
   \<and> (parsePartsFile str file = Inr ps \<and> MAX_PARTS_LIMIT < length ps \<longrightarrow>
        uploadStatus (handleFileChange str (Some file) s) = error
        \<and> uploadMessage (handleFileChange str (Some file) s)
            = Failed (SizeExceeded (length ps) MAX_PARTS_LIMIT))
   \<and> (parsePartsFile str file = Inr ps \<and> \<not> MAX_PARTS_LIMIT < length ps \<longrightarrow>
        uploadStatus (handleFileChange str (Some file) s) = success
        \<and> parts (handleFileChange str (Some file) s) = ps)"
proof -
  consider (failed) e' where "parsePartsFile str file = Inl e'"
    | (too_big) ps' where "parsePartsFile str file = Inr ps'" "MAX_PARTS_LIMIT < length ps'"
    | (loaded) ps' where "parsePartsFile str file = Inr ps'" "\<not> MAX_PARTS_LIMIT < length ps'"
    by (cases "parsePartsFile str file") blast+
  then show ?thesis
  proof cases
    case failed
    then show ?thesis by (simp add: handleFileChange_failed [OF failed])
  next
    case too_big
    then show ?thesis by (auto simp: handleFileChange_too_big [OF too_big])
  next
    case loaded
    then show ?thesis by (auto simp: handleFileChange_loaded [OF loaded])
  qed
qed

theorem upload_resets_ledger_witness:
  "parsePartsFile (\<lambda>x. x) pdfFile = Inl UnsupportedFormat
   \<and> quotationParts exampleLedger \<noteq> []
   \<and> quotationParts (handleFileChange (\<lambda>x. x) (Some pdfFile) (exampleLedger\<lparr>discountPercentage := 10\<rparr>)) = []
   \<and> discountPercentage (handleFileChange (\<lambda>x. x) (Some pdfFile) (exampleLedger\<lparr>discountPercentage := 10\<rparr>)) = 0
   \<and> uploadStatus (handleFileChange (\<lambda>x. x) (Some pdfFile) (exampleLedger\<lparr>discountPercentage := 10\<rparr>)) = error
   \<and> parts (handleFileChange (\<lambda>x. x) (Some pdfFile) (exampleLedger\<lparr>discountPercentage := 10\<rparr>)) = []
   \<and> parsePartsFile (\<lambda>x. x) (sheetFile [exampleHeaderRow, exampleDataRow]) = Inr [examplePart]
   \<and> \<not> MAX_PARTS_LIMIT < length [examplePart]
   \<and> quotationParts (handleFileChange (\<lambda>x. x) (Some (sheetFile [exampleHeaderRow, exampleDataRow])) exampleLedger) = []
   \<and> parts (handleFileChange (\<lambda>x. x) (Some (sheetFile [exampleHeaderRow, exampleDataRow])) exampleLedger) = [examplePart]"
proof -
  have a: "parsePartsFile (\<lambda>x. x) pdfFile = Inl UnsupportedFormat"
    by (simp add: parsePartsFile_def pdfFile_def extension_def toLowerCase_def toLowerChar_def)
  have b: "parsePartsFile (\<lambda>x. x) (sheetFile [exampleHeaderRow, exampleDataRow]) = Inr [examplePart]"
    using parse_sheetFile [of 0] by simp
  have c: "\<not> MAX_PARTS_LIMIT < length [examplePart]"
    by (simp add: MAX_PARTS_LIMIT_def)
  have d: "quotationParts exampleLedger \<noteq> []"
    by (simp add: exampleLedger_def)
  from upload_resets_ledger
         [of "\<lambda>x. x" pdfFile "exampleLedger\<lparr>discountPercentage := 10\<rparr>" UnsupportedFormat]
       upload_resets_ledger
         [of "\<lambda>x. x" "sheetFile [exampleHeaderRow, exampleDataRow]" exampleLedger _ "[examplePart]"]
       a b c d
  show ?thesis by blast
qed

section \<open>Totals and discount: properties\<close>










section \<open>Search: properties\<close>







section \<open>File parser: properties\<close>




































end
